theory Spec2Isabelle
  imports Complex_Main "HOL-Library.Word" "HOL-Library.Monad_Syntax"
begin

unbundle bit_operations_syntax

section \<open>The MTicker streaming client (src/lib/ticker.ts) and its Utils\<close>

text \<open>
  Conventions of the embedding.
  \<^item> An \<open>ArrayBuffer\<close> with its \<open>DataView\<close> is a list of bytes. A read past the end
    throws \<open>RangeError\<close> in JavaScript; the readers return \<open>None\<close> there, and every
    \<open>try/catch\<close> of the source is a case distinction on that \<open>None\<close>.
  \<^item> Unsigned wire integers, offsets and instrument tokens are \<open>nat\<close>. Other JavaScript
    numbers (prices after division, quantities stored in a tick) are exact rationals:
    the rounding of the IEEE division is not part of the model.
  \<^item> The mode strings \<open>'ltp' | 'quote' | 'full'\<close> of the TypeScript signature are a
    datatype.
  \<^item> A \<open>Date\<close> is its number of milliseconds since 1970-01-01T00:00:00Z.
  \<^item> An optional property of an object is an \<open>option\<close>: \<open>None\<close> is an absent
    property. A property of type \<open>Date | null\<close> is an \<open>option\<close> below that.
  \<^item> Console output, socket sends, timers and callbacks are appended to a trace held in
    the client state; a callback is taken to return normally, as the default handlers
    do. Timers set and not yet fired are counted in \<open>pendingTimers\<close>.
  \<^item> The text channel (\<open>handleTextMessage\<close>) and the login with resubscription
    (\<open>sendLoginAfterConnect\<close>) write none of the fields studied below and are left out.
\<close>

subsection \<open>Utils\<close>

datatype Date = Date int

definition baseDate :: int where
  \<comment> \<open>\<open>new Date('1980-01-01T00:00:00Z').getTime()\<close>: 3652 days after the Unix epoch\<close>
  "baseDate = 315532800000"

definition unixToDateTime :: "nat \<Rightarrow> Date" where
  "unixToDateTime unixTimeStamp = Date (baseDate + int unixTimeStamp * 1000)"

definition getDecimalDivisor :: "nat \<Rightarrow> rat" where
  "getDecimalDivisor instrumentToken =
     (let segment = instrumentToken AND 0xff in
      if segment = 3 then 10000000
      else if segment = 6 then 10000
      else 100)"

subsection \<open>Ticks\<close>

datatype mode = Ltp | Quote | Full

record DepthItem =
  Quantity :: rat
  Price :: rat
  Orders :: rat

record FeedData =
  Mode :: "mode option"
  InstrumentToken :: "nat option"
  Tradable :: "bool option"
  LastPrice :: "rat option"
  LastQuantity :: "rat option"
  AveragePrice :: "rat option"
  Volume :: "rat option"
  BuyQuantity :: "rat option"
  SellQuantity :: "rat option"
  Open :: "rat option"
  High :: "rat option"
  Low :: "rat option"
  Close :: "rat option"
  Change :: "rat option"
  Bids :: "DepthItem list option"
  Offers :: "DepthItem list option"
  LastTradeTime :: "Date option option"
  OI :: "rat option"
  OIDayHigh :: "rat option"
  OIDayLow :: "rat option"
  Timestamp :: "Date option option"
  UpperCircuit :: "rat option"
  LowerCircuit :: "rat option"
  YearHigh :: "rat option"
  YearLow :: "rat option"

definition noFields :: FeedData where
  \<comment> \<open>the object literal with no property; the readers set properties on it\<close>
  "noFields = \<lparr>Mode = None, InstrumentToken = None, Tradable = None, LastPrice = None,
     LastQuantity = None, AveragePrice = None, Volume = None, BuyQuantity = None,
     SellQuantity = None, Open = None, High = None, Low = None, Close = None,
     Change = None, Bids = None, Offers = None, LastTradeTime = None, OI = None,
     OIDayHigh = None, OIDayLow = None, Timestamp = None, UpperCircuit = None,
     LowerCircuit = None, YearHigh = None, YearLow = None\<rparr>"

subsection \<open>Client state and its trace\<close>

datatype readyState = CONNECTING | OPEN | CLOSING | CLOSED

datatype action = Subscribe | Unsubscribe

datatype message =
    SubscriptionMsg action "nat list"
  | ModeMsg mode "nat list"
  | SubscribeModeMsg mode "nat list"

datatype console =
    AlreadyConnected
  | FailedToCreate
  | Connected
  | FailedToParseBinary
  | WebSocketError
  | ConnectionClosed
  | MaxReconnectionAttemptsReached
  | InvalidTokensSubscription
  | InvalidTokensUnsubscription
  | CannotSend action
  | UnknownPacketLength nat
  | ErrorParsingTick

datatype effect =
    Log console
  | Warn console
  | Error console
  | NewWebSocket
  | WsSend message
  | WsClose
  | SetTimeout
  | OnBroadcastReceived FeedData
  | OnConnect
  | OnClose
  | OnError
  | OnReconnecting nat nat

record MTicker =
  maxReconnectionAttempts :: nat
  ws :: "readyState option"
  reconnectionAttempts :: nat
  subscribedTokens :: "nat set"
  currentMode :: mode
  tokenModes :: "nat \<rightharpoonup> mode"
  isManualClose :: bool
  pendingTimers :: nat
  trace :: "effect list"

definition newMTicker :: "nat option \<Rightarrow> MTicker" where
  \<comment> \<open>the constructor; \<open>config.maxReconnectionAttempts || 5\<close> also replaces 0 by 5\<close>
  "newMTicker configMax =
     \<lparr>maxReconnectionAttempts =
        (case configMax of None \<Rightarrow> 5 | Some m \<Rightarrow> if m = 0 then 5 else m),
      ws = None, reconnectionAttempts = 0, subscribedTokens = {},
      currentMode = Full, tokenModes = Map.empty, isManualClose = False,
      pendingTimers = 0, trace = []\<rparr>"

definition emit :: "effect list \<Rightarrow> MTicker \<Rightarrow> MTicker" where
  "emit es this = this\<lparr>trace := trace this @ es\<rparr>"

definition isOpen :: "MTicker \<Rightarrow> bool" where
  \<comment> \<open>\<open>this.ws && this.ws.readyState === WebSocket.OPEN\<close>\<close>
  "isOpen this = (case ws this of None \<Rightarrow> False | Some r \<Rightarrow> r = OPEN)"


subsection \<open>The binary decoder\<close>

type_synonym DataView = "8 word list"

definition be16 :: "DataView \<Rightarrow> nat \<Rightarrow> nat" where
  \<comment> \<open>the two bytes at \<open>k\<close> as a big-endian unsigned integer\<close>
  "be16 view k = unat (view ! k) * 256 + unat (view ! (k + 1))"

definition be32 :: "DataView \<Rightarrow> nat \<Rightarrow> nat" where
  \<comment> \<open>the four bytes at \<open>k\<close> as a big-endian unsigned integer\<close>
  "be32 view k = be16 view k * 65536 + be16 view (k + 2)"

definition getUint16 :: "DataView \<Rightarrow> nat \<Rightarrow> nat option" where
  \<comment> \<open>\<open>view.getUint16(byteOffset, false)\<close>\<close>
  "getUint16 view byteOffset =
     (if byteOffset + 2 \<le> length view then Some (be16 view byteOffset) else None)"

definition getUint32 :: "DataView \<Rightarrow> nat \<Rightarrow> nat option" where
  \<comment> \<open>\<open>view.getUint32(byteOffset, false)\<close>\<close>
  "getUint32 view byteOffset =
     (if byteOffset + 4 \<le> length view then Some (be32 view byteOffset) else None)"

definition getPrice :: "DataView \<Rightarrow> nat \<Rightarrow> rat \<Rightarrow> rat option" where
  \<comment> \<open>the source expression \<open>view.getUint32(o, false) / divisor\<close>\<close>
  "getPrice view byteOffset divisor =
     map_option (\<lambda>raw. of_nat raw / divisor) (getUint32 view byteOffset)"

definition getNumber :: "DataView \<Rightarrow> nat \<Rightarrow> rat option" where
  \<comment> \<open>the source expression \<open>view.getUint32(o, false)\<close> stored in a tick\<close>
  "getNumber view byteOffset = map_option of_nat (getUint32 view byteOffset)"

definition getTokenMode :: "MTicker \<Rightarrow> nat \<Rightarrow> mode" where
  "getTokenMode this token = (case tokenModes this token of None \<Rightarrow> Full | Some m \<Rightarrow> m)"

definition tradable :: "nat \<Rightarrow> bool" where
  \<comment> \<open>the source expression \<open>(instrumentToken & 0xff) !== 9\<close>\<close>
  "tradable instrumentToken = (instrumentToken AND 0xff \<noteq> 9)"

definition readLTPBroadcast :: "DataView \<Rightarrow> nat \<Rightarrow> FeedData option" where
  "readLTPBroadcast view offset = do {
     instrumentToken \<leftarrow> getUint32 view offset;
     let divisor = getDecimalDivisor instrumentToken;
     lastPrice \<leftarrow> getPrice view (offset + 4) divisor;
     Some (noFields\<lparr>InstrumentToken := Some instrumentToken, Mode := Some Ltp,
       LastPrice := Some lastPrice, Tradable := Some (tradable instrumentToken)\<rparr>)
   }"

definition readQuoteIndex :: "DataView \<Rightarrow> nat \<Rightarrow> FeedData option" where
  "readQuoteIndex view offset = do {
     instrumentToken \<leftarrow> getUint32 view offset;
     let divisor = getDecimalDivisor instrumentToken;
     lastPrice \<leftarrow> getPrice view (offset + 4) divisor;
     high \<leftarrow> getPrice view (offset + 8) divisor;
     low \<leftarrow> getPrice view (offset + 12) divisor;
     open' \<leftarrow> getPrice view (offset + 16) divisor;
     close \<leftarrow> getPrice view (offset + 20) divisor;
     change \<leftarrow> getPrice view (offset + 24) divisor;
     Some (noFields\<lparr>Mode := Some Quote, InstrumentToken := Some instrumentToken,
       Tradable := Some (tradable instrumentToken), LastPrice := Some lastPrice,
       High := Some high, Low := Some low, Open := Some open', Close := Some close,
       Change := Some change\<rparr>)
   }"

definition readFullIndex :: "MTicker \<Rightarrow> DataView \<Rightarrow> nat \<Rightarrow> FeedData option" where
  "readFullIndex this view offset = do {
     instrumentToken \<leftarrow> getUint32 view offset;
     let requestedMode = getTokenMode this instrumentToken;
     let divisor = getDecimalDivisor instrumentToken;
     lastPrice \<leftarrow> getPrice view (offset + 4) divisor;
     high \<leftarrow> getPrice view (offset + 8) divisor;
     low \<leftarrow> getPrice view (offset + 12) divisor;
     open' \<leftarrow> getPrice view (offset + 16) divisor;
     close \<leftarrow> getPrice view (offset + 20) divisor;
     time \<leftarrow> getUint32 view (offset + 28);
     if requestedMode = Quote then
       Some (noFields\<lparr>Mode := Some Quote, InstrumentToken := Some instrumentToken,
         Tradable := Some (tradable instrumentToken), LastPrice := Some lastPrice,
         High := Some high, Low := Some low, Open := Some open', Close := Some close,
         Change := Some (lastPrice - close)\<rparr>)
     else if requestedMode = Ltp then
       Some (noFields\<lparr>Mode := Some Ltp, InstrumentToken := Some instrumentToken,
         Tradable := Some (tradable instrumentToken), LastPrice := Some lastPrice\<rparr>)
     else
       Some (noFields\<lparr>Mode := Some Full, InstrumentToken := Some instrumentToken,
         Tradable := Some (tradable instrumentToken), LastPrice := Some lastPrice,
         High := Some high, Low := Some low, Open := Some open', Close := Some close,
         Change := Some (lastPrice - close),
         Timestamp := Some (Some (unixToDateTime time))\<rparr>)
   }"

definition readQuote :: "DataView \<Rightarrow> nat \<Rightarrow> FeedData option" where
  "readQuote view offset = do {
     instrumentToken \<leftarrow> getUint32 view offset;
     let divisor = getDecimalDivisor instrumentToken;
     lastPrice \<leftarrow> getPrice view (offset + 4) divisor;
     lastQuantity \<leftarrow> getNumber view (offset + 8);
     averagePrice \<leftarrow> getPrice view (offset + 12) divisor;
     volume \<leftarrow> getNumber view (offset + 16);
     buyQuantity \<leftarrow> getNumber view (offset + 20);
     sellQuantity \<leftarrow> getNumber view (offset + 24);
     open' \<leftarrow> getPrice view (offset + 28) divisor;
     high \<leftarrow> getPrice view (offset + 32) divisor;
     low \<leftarrow> getPrice view (offset + 36) divisor;
     close \<leftarrow> getPrice view (offset + 40) divisor;
     Some (noFields\<lparr>Mode := Some Quote, InstrumentToken := Some instrumentToken,
       Tradable := Some (tradable instrumentToken), LastPrice := Some lastPrice,
       LastQuantity := Some lastQuantity, AveragePrice := Some averagePrice,
       Volume := Some volume, BuyQuantity := Some buyQuantity,
       SellQuantity := Some sellQuantity, Open := Some open', High := Some high,
       Low := Some low, Close := Some close\<rparr>)
   }"

definition createQuoteFromPacket :: "DataView \<Rightarrow> nat \<Rightarrow> nat \<Rightarrow> FeedData option" where
  "createQuoteFromPacket view offset length' = do {
     instrumentToken \<leftarrow> getUint32 view offset;
     let divisor = getDecimalDivisor instrumentToken;
     lastPrice \<leftarrow> getPrice view (offset + 4) divisor;
     lastQuantity \<leftarrow> (if length' \<ge> 12 then getNumber view (offset + 8) else Some 0);
     averagePrice \<leftarrow> (if length' \<ge> 16 then getPrice view (offset + 12) divisor else Some 0);
     volume \<leftarrow> (if length' \<ge> 20 then getNumber view (offset + 16) else Some 0);
     buyQuantity \<leftarrow> (if length' \<ge> 24 then getNumber view (offset + 20) else Some 0);
     sellQuantity \<leftarrow> (if length' \<ge> 28 then getNumber view (offset + 24) else Some 0);
     open' \<leftarrow> (if length' \<ge> 32 then getPrice view (offset + 28) divisor else Some 0);
     high \<leftarrow> (if length' \<ge> 36 then getPrice view (offset + 32) divisor else Some 0);
     low \<leftarrow> (if length' \<ge> 40 then getPrice view (offset + 36) divisor else Some 0);
     close \<leftarrow> (if length' \<ge> 44 then getPrice view (offset + 40) divisor else Some 0);
     Some (noFields\<lparr>Mode := Some Quote, InstrumentToken := Some instrumentToken,
       Tradable := Some (tradable instrumentToken), LastPrice := Some lastPrice,
       LastQuantity := Some lastQuantity, AveragePrice := Some averagePrice,
       Volume := Some volume, BuyQuantity := Some buyQuantity,
       SellQuantity := Some sellQuantity, Open := Some open', High := Some high,
       Low := Some low, Close := Some close\<rparr>)
   }"

definition createLTPFromPacket :: "DataView \<Rightarrow> nat \<Rightarrow> nat \<Rightarrow> FeedData option" where
  "createLTPFromPacket view offset instrumentToken = do {
     let divisor = getDecimalDivisor instrumentToken;
     lastPrice \<leftarrow> getPrice view (offset + 4) divisor;
     Some (noFields\<lparr>Mode := Some Ltp, InstrumentToken := Some instrumentToken,
       Tradable := Some (tradable instrumentToken), LastPrice := Some lastPrice,
       LastQuantity := Some 0, AveragePrice := Some 0, Volume := Some 0,
       BuyQuantity := Some 0, SellQuantity := Some 0, Open := Some 0, High := Some 0,
       Low := Some 0, Close := Some 0, Change := Some 0, LastTradeTime := Some None,
       OI := Some 0, OIDayHigh := Some 0, OIDayLow := Some 0, Timestamp := Some None\<rparr>)
   }"

definition readDepth :: "DataView \<Rightarrow> rat \<Rightarrow> nat \<Rightarrow> DepthItem option" where
  \<comment> \<open>one iteration of the bid loop or of the offer loop of \<open>readFullFeed\<close>\<close>
  "readDepth view divisor depthOffset = do {
     quantity \<leftarrow> getNumber view depthOffset;
     price \<leftarrow> getPrice view (depthOffset + 4) divisor;
     orders \<leftarrow> getUint16 view (depthOffset + 8);
     Some \<lparr>Quantity = quantity, Price = price, Orders = of_nat orders\<rparr>
   }"

definition depthAt :: "DataView \<Rightarrow> rat \<Rightarrow> nat \<Rightarrow> DepthItem" where
  \<comment> \<open>the depth entry held by the twelve bytes at \<open>k\<close>, for stating what the loops build\<close>
  "depthAt view divisor k =
     \<lparr>Quantity = of_nat (be32 view k), Price = of_nat (be32 view (k + 4)) / divisor,
      Orders = of_nat (be16 view (k + 8))\<rparr>"

fun readDepths :: "DataView \<Rightarrow> rat \<Rightarrow> nat \<Rightarrow> nat \<Rightarrow> DepthItem list option" where
  \<comment> \<open>\<open>for (let i = 0; i < 5; i++) { push(...); depthOffset += 12 }\<close>, by the iterations left\<close>
  "readDepths view divisor depthOffset 0 = Some []"
| "readDepths view divisor depthOffset (Suc n) = do {
     item \<leftarrow> readDepth view divisor depthOffset;
     items \<leftarrow> readDepths view divisor (depthOffset + 12) n;
     Some (item # items)
   }"

definition readFullFeed :: "DataView \<Rightarrow> nat \<Rightarrow> nat \<Rightarrow> FeedData option" where
  "readFullFeed view offset length' = do {
     instrumentToken \<leftarrow> getUint32 view offset;
     let divisor = getDecimalDivisor instrumentToken;
     lastPrice \<leftarrow> getPrice view (offset + 4) divisor;
     close \<leftarrow> getPrice view (offset + 40) divisor;
     lastQuantity \<leftarrow> getNumber view (offset + 8);
     averagePrice \<leftarrow> getPrice view (offset + 12) divisor;
     volume \<leftarrow> getNumber view (offset + 16);
     buyQuantity \<leftarrow> getNumber view (offset + 20);
     sellQuantity \<leftarrow> getNumber view (offset + 24);
     open' \<leftarrow> getPrice view (offset + 28) divisor;
     high \<leftarrow> getPrice view (offset + 32) divisor;
     low \<leftarrow> getPrice view (offset + 36) divisor;
     lastTradeTime \<leftarrow> getUint32 view (offset + 44);
     oi \<leftarrow> getNumber view (offset + 48);
     oiDayHigh \<leftarrow> getNumber view (offset + 52);
     oiDayLow \<leftarrow> getNumber view (offset + 56);
     timestamp \<leftarrow> getUint32 view (offset + 60);
     let bidOffset = offset + 64;
     bids \<leftarrow> readDepths view divisor bidOffset 5;
     let offerOffset = bidOffset + 60;
     offers \<leftarrow> readDepths view divisor offerOffset 5;
     let offerOffset = offerOffset + 60;
     upperCircuit \<leftarrow> getPrice view offerOffset divisor;
     lowerCircuit \<leftarrow> getPrice view (offerOffset + 4) divisor;
     yearHigh \<leftarrow> getPrice view (offerOffset + 8) divisor;
     yearLow \<leftarrow> getPrice view (offerOffset + 12) divisor;
     Some (noFields\<lparr>Mode := Some Full, InstrumentToken := Some instrumentToken,
       Tradable := Some (tradable instrumentToken), LastPrice := Some lastPrice,
       LastQuantity := Some lastQuantity, AveragePrice := Some averagePrice,
       Volume := Some volume, BuyQuantity := Some buyQuantity,
       SellQuantity := Some sellQuantity, Open := Some open', High := Some high,
       Low := Some low, Close := Some close, Change := Some 0,
       LastTradeTime := Some (Some (unixToDateTime lastTradeTime)), OI := Some oi,
       OIDayHigh := Some oiDayHigh, OIDayLow := Some oiDayLow,
       Timestamp := Some (Some (unixToDateTime timestamp)),
       Bids := Some bids, Offers := Some offers,
       UpperCircuit := Some upperCircuit, LowerCircuit := Some lowerCircuit,
       YearHigh := Some yearHigh, YearLow := Some yearLow\<rparr>)
   }"

definition readModeBasedData :: "MTicker \<Rightarrow> DataView \<Rightarrow> nat \<Rightarrow> nat \<Rightarrow> FeedData option" where
  "readModeBasedData this view offset length' = do {
     instrumentToken \<leftarrow> getUint32 view offset;
     let requestedMode = getTokenMode this instrumentToken;
     if requestedMode = Quote then createQuoteFromPacket view offset length'
     else if requestedMode = Ltp then createLTPFromPacket view offset instrumentToken
     else if length' = 44 then readQuote view offset
     else readFullFeed view offset length'
   }"

definition parseTickData ::
  "MTicker \<Rightarrow> DataView \<Rightarrow> nat \<Rightarrow> nat \<Rightarrow> FeedData option \<times> effect list" where
  \<comment> \<open>the tick or \<open>null\<close>, with what the call writes to the console; the \<open>catch\<close>
      turns a thrown \<open>RangeError\<close> into \<open>null\<close>\<close>
  "parseTickData this view offset length' =
     (let catch = (\<lambda>r. case r of
                     Some tick \<Rightarrow> (Some tick, [])
                   | None \<Rightarrow> (None, [Error ErrorParsingTick])) in
      if length' = 8 then catch (readLTPBroadcast view offset)
      else if length' = 28 then catch (readQuoteIndex view offset)
      else if length' = 32 then catch (readFullIndex this view offset)
      else if length' = 44 \<or> length' = 184 \<or> length' = 200
        then catch (readModeBasedData this view offset length')
      else (None, [Warn (UnknownPacketLength length')]))"





subsection \<open>Connection lifecycle\<close>

definition scheduleReconnection :: "MTicker \<Rightarrow> MTicker" where
  \<comment> \<open>the timer set here is counted in \<open>pendingTimers\<close>; its callback is
      \<open>reconnectTimerFired\<close>\<close>
  "scheduleReconnection this =
     (if reconnectionAttempts this < maxReconnectionAttempts this \<and> \<not> isManualClose this then
        (let this = this\<lparr>reconnectionAttempts := reconnectionAttempts this + 1\<rparr>;
             this = emit [OnReconnecting (reconnectionAttempts this)
                            (maxReconnectionAttempts this)] this
         in emit [SetTimeout] (this\<lparr>pendingTimers := pendingTimers this + 1\<rparr>))
      else if reconnectionAttempts this \<ge> maxReconnectionAttempts this then
        emit [Error MaxReconnectionAttemptsReached] this
      else this)"

definition createWebSocketConnection :: "bool \<Rightarrow> MTicker \<Rightarrow> MTicker" where
  \<comment> \<open>\<open>constructed\<close>: whether \<open>new WebSocket(url)\<close> returned rather than threw\<close>
  "createWebSocketConnection constructed this =
     (if constructed then emit [NewWebSocket] (this\<lparr>ws := Some CONNECTING\<rparr>)
      else scheduleReconnection (emit [Error FailedToCreate] this))"

definition reconnectTimerFired :: "bool \<Rightarrow> MTicker \<Rightarrow> MTicker" where
  \<comment> \<open>the callback given to \<open>setTimeout\<close> by \<open>scheduleReconnection\<close>\<close>
  "reconnectTimerFired constructed this =
     (if pendingTimers this = 0 then this
      else (let this = this\<lparr>pendingTimers := pendingTimers this - 1\<rparr> in
            if \<not> isManualClose this then createWebSocketConnection constructed this
            else this))"

definition connect :: "bool \<Rightarrow> MTicker \<Rightarrow> MTicker" where
  "connect constructed this =
     (if isOpen this then emit [Warn AlreadyConnected] this
      else createWebSocketConnection constructed (this\<lparr>isManualClose := False\<rparr>))"

definition handleOpen :: "MTicker \<Rightarrow> MTicker" where
  "handleOpen this =
     emit [OnConnect] ((emit [Log Connected] this)\<lparr>reconnectionAttempts := 0\<rparr>)"

definition handleError :: "MTicker \<Rightarrow> MTicker" where
  "handleError this = scheduleReconnection (emit [Error WebSocketError, OnError] this)"

definition handleClose :: "MTicker \<Rightarrow> MTicker" where
  "handleClose this =
     (let this = emit [Log ConnectionClosed, OnClose] this in
      if \<not> isManualClose this then scheduleReconnection this else this)"

definition disconnect :: "MTicker \<Rightarrow> MTicker" where
  "disconnect this =
     (let this = this\<lparr>isManualClose := True\<rparr>;
          this = (if ws this \<noteq> None then (emit [WsClose] this)\<lparr>ws := None\<rparr> else this)
      in this\<lparr>subscribedTokens := {}, reconnectionAttempts := 0\<rparr>)"

definition socketReadyState :: "readyState \<Rightarrow> MTicker \<Rightarrow> MTicker" where
  \<comment> \<open>the runtime moves the \<open>readyState\<close> of the current socket; the client never writes it\<close>
  "socketReadyState r this = this\<lparr>ws := map_option (\<lambda>_. r) (ws this)\<rparr>"



subsection \<open>Subscriptions and modes\<close>

definition sendSubscriptionMessage :: "action \<Rightarrow> nat list \<Rightarrow> MTicker \<Rightarrow> MTicker" where
  "sendSubscriptionMessage action tokens this =
     (if isOpen this then emit [WsSend (SubscriptionMsg action tokens)] this
      else emit [Warn (CannotSend action)] this)"

definition subscribe :: "nat list \<Rightarrow> MTicker \<Rightarrow> MTicker" where
  "subscribe tokens this =
     (if tokens = [] then emit [Warn InvalidTokensSubscription] this
      else sendSubscriptionMessage Subscribe tokens
             (this\<lparr>subscribedTokens := fold insert tokens (subscribedTokens this)\<rparr>))"

definition unsubscribe :: "nat list \<Rightarrow> MTicker \<Rightarrow> MTicker" where
  "unsubscribe tokens this =
     (if tokens = [] then emit [Warn InvalidTokensUnsubscription] this
      else sendSubscriptionMessage Unsubscribe tokens
             (this\<lparr>subscribedTokens :=
                fold (\<lambda>token s. s - {token}) tokens (subscribedTokens this)\<rparr>))"

definition setMode :: "mode \<Rightarrow> nat list \<Rightarrow> MTicker \<Rightarrow> MTicker" where
  "setMode mode' tokens this =
     (let this = this\<lparr>currentMode := mode',
                      tokenModes := fold (\<lambda>token m. m(token \<mapsto> mode')) tokens (tokenModes this)\<rparr>
      in if isOpen this then emit [WsSend (ModeMsg mode' tokens)] this else this)"

definition subscribeWithMode :: "mode \<Rightarrow> nat list \<Rightarrow> MTicker \<Rightarrow> MTicker" where
  "subscribeWithMode mode' tokens this =
     (if isOpen this then
        (emit [WsSend (SubscribeModeMsg mode' tokens)] this)
          \<lparr>subscribedTokens := fold insert tokens (subscribedTokens this)\<rparr>
      else this)"

subsection \<open>Scenarios and vocabulary for the statements\<close>



section \<open>Properties\<close>

subsection \<open>Reading inside the buffer\<close>

lemma and_255: "(i::nat) AND 255 = i mod 256"
proof -
  have "i AND mask 8 = take_bit 8 i" by (simp only: take_bit_eq_mask)
  then show ?thesis by (simp add: take_bit_eq_mod mask_eq_exp_minus_1)
qed

lemma getUint32_inside: "k + 4 \<le> length view \<Longrightarrow> getUint32 view k = Some (be32 view k)"
  by (simp add: getUint32_def)

lemma getUint16_inside: "k + 2 \<le> length view \<Longrightarrow> getUint16 view k = Some (be16 view k)"
  by (simp add: getUint16_def)

lemma getPrice_inside:
  "k + 4 \<le> length view \<Longrightarrow> getPrice view k d = Some (of_nat (be32 view k) / d)"
  by (simp add: getPrice_def getUint32_def)

lemma getNumber_inside:
  "k + 4 \<le> length view \<Longrightarrow> getNumber view k = Some (of_nat (be32 view k))"
  by (simp add: getNumber_def getUint32_def)

lemmas inside = getUint32_inside getUint16_inside getPrice_inside getNumber_inside

lemma readDepth_inside:
  "k + 12 \<le> length view \<Longrightarrow> readDepth view d k = Some (depthAt view d k)"
  by (simp add: readDepth_def depthAt_def inside)

lemma readDepths_inside:
  "k + 12 * n \<le> length view \<Longrightarrow>
   readDepths view d k n = Some (map (\<lambda>i. depthAt view d (k + 12 * i)) [0..<n])"
proof (induction n arbitrary: k)
  case 0
  then show ?case by simp
next
  case (Suc n)
  have "[0..<Suc n] = 0 # map Suc [0..<n]"
    by (simp add: upt_conv_Cons map_Suc_upt del: upt_Suc)
  moreover have "readDepth view d k = Some (depthAt view d k)"
    using Suc.prems by (simp add: readDepth_inside)
  moreover have "readDepths view d (k + 12) n
      = Some (map (\<lambda>i. depthAt view d (k + 12 + 12 * i)) [0..<n])"
    using Suc.prems by (intro Suc.IH) simp
  ultimately show ?case
    by (simp add: comp_def add.assoc del: upt_Suc)
qed

lemma getUint32_SomeD:
  "getUint32 view k = Some t \<Longrightarrow> t = be32 view k \<and> k + 4 \<le> length view"
  by (simp add: getUint32_def split: if_splits)

lemma fold_insert_eq: "fold insert xs S = set xs \<union> S"
  by (induction xs arbitrary: S) auto

lemma fold_delete_eq: "fold (\<lambda>token s. s - {token}) xs S = S - set xs"
  by (induction xs arbitrary: S) auto

lemma fold_upd_eq:
  "fold (\<lambda>token m. m(token \<mapsto> v)) xs m t = (if t \<in> set xs then Some v else m t)"
  by (induction xs arbitrary: m) auto

subsection \<open>Reading past the buffer, and the record loop\<close>














lemma readFullFeed_Change:
  "readFullFeed view offset len = Some tick \<Longrightarrow> Change tick = Some 0"
  by (auto simp add: readFullFeed_def Let_def split: Option.bind_splits)

subsection \<open>Events at the maximum\<close>





subsection \<open>The price scaler\<close>

text \<open>
  Claim C2. For every instrument identifier \<open>i\<close>, \<open>getDecimalDivisor i\<close> is determined by
  \<open>i mod 256\<close> alone and has no error case: it is 10,000,000 when the low 8 bits are 3,
  10,000 when they are 6 and 100 otherwise; so it is one of 100, 10000, 10000000 and
  positive.
\<close>

theorem getDecimalDivisor_total:
  "getDecimalDivisor i =
     (if i mod 256 = 3 then 10000000 else if i mod 256 = 6 then 10000 else 100)
   \<and> getDecimalDivisor i \<in> {100, 10000, 10000000}
   \<and> 0 < getDecimalDivisor i
   \<and> getDecimalDivisor i = getDecimalDivisor (i mod 256)"
  by (simp add: getDecimalDivisor_def and_255)

theorem getDecimalDivisor_total_witness:
  "getDecimalDivisor 259 = 10000000 \<and> getDecimalDivisor 259 = getDecimalDivisor (259 mod 256)
   \<and> getDecimalDivisor 408065 = 100 \<and> getDecimalDivisor 518 = 10000"
  using getDecimalDivisor_total [of 259] getDecimalDivisor_total [of 408065]
    getDecimalDivisor_total [of 518]
  by simp

subsection \<open>One record of a supported length\<close>

text \<open>
  Claim C1, as the code has it. The claim reads: every record of a supported length
  decodes to one tick whose mode is the requested mode of its identifier (default full)
  and whose numeric fields are all the raw integer divided by the divisor. The code
  forces the mode of the 8-byte shape to ltp and of the 28-byte shape to quote, and reads
  a 44-byte record as a quote when the requested mode is full; quantities, volume and
  open interest are not divided, and \<open>Change\<close> is a wire value only in the 28-byte shape.
  What holds: a record of length 8, 28, 32, 44 or 200 inside the buffer (and one of
  length 184 whose requested mode is ltp or quote) decodes to exactly one tick and
  nothing is logged. The tick is given below field by field for every shape and mode:
  its mode is as just described, every price field of the shape is the integer at its
  record offset divided by the divisor, every quantity is that integer undivided, and
  mode ltp on the large shapes takes the last price from the wire and fills in zeros.
\<close>

theorem parseTickData_supported_lengths:
  fixes this :: MTicker and view :: DataView and offset len t :: nat
  defines "m \<equiv> getTokenMode this t"
    and "d \<equiv> getDecimalDivisor t"
  defines "price \<equiv> \<lambda>k. of_nat (be32 view (offset + k)) / d"
    and "number \<equiv> \<lambda>k. rat_of_nat (be32 view (offset + k))"
    and "time \<equiv> \<lambda>k. Date (315532800000 + 1000 * int (be32 view (offset + k)))"
    and "depths \<equiv> \<lambda>k. map (\<lambda>i. depthAt view d (offset + k + 12 * i)) [0..<5]"
  assumes supported: "len \<in> {8, 28, 32, 44, 200} \<or> len = 184 \<and> m \<noteq> Full"
    and within: "offset + len \<le> length view"
    and token: "getUint32 view offset = Some t"
  shows "\<exists>tick. parseTickData this view offset len = (Some tick, [])
     \<and> Mode tick = Some (if len = 8 then Ltp else if len = 28 then Quote
                          else if len = 44 \<and> m = Full then Quote else m)
     \<and> tick =
        (if len = 8 then
           noFields\<lparr>InstrumentToken := Some t, Mode := Some Ltp,
             LastPrice := Some (price 4), Tradable := Some (t mod 256 \<noteq> 9)\<rparr>
         else if len = 28 then
           noFields\<lparr>Mode := Some Quote, InstrumentToken := Some t,
             Tradable := Some (t mod 256 \<noteq> 9), LastPrice := Some (price 4),
             High := Some (price 8), Low := Some (price 12), Open := Some (price 16),
             Close := Some (price 20), Change := Some (price 24)\<rparr>
         else if len = 32 then
           (case m of
              Quote \<Rightarrow>
                noFields\<lparr>Mode := Some Quote, InstrumentToken := Some t,
                  Tradable := Some (t mod 256 \<noteq> 9), LastPrice := Some (price 4),
                  High := Some (price 8), Low := Some (price 12), Open := Some (price 16),
                  Close := Some (price 20), Change := Some (price 4 - price 20)\<rparr>
            | Ltp \<Rightarrow>
                noFields\<lparr>Mode := Some Ltp, InstrumentToken := Some t,
                  Tradable := Some (t mod 256 \<noteq> 9), LastPrice := Some (price 4)\<rparr>
            | Full \<Rightarrow>
                noFields\<lparr>Mode := Some Full, InstrumentToken := Some t,
                  Tradable := Some (t mod 256 \<noteq> 9), LastPrice := Some (price 4),
                  High := Some (price 8), Low := Some (price 12), Open := Some (price 16),
                  Close := Some (price 20), Change := Some (price 4 - price 20),
                  Timestamp := Some (Some (time 28))\<rparr>)
         else if m = Ltp then
           noFields\<lparr>Mode := Some Ltp, InstrumentToken := Some t,
             Tradable := Some (t mod 256 \<noteq> 9), LastPrice := Some (price 4),
             LastQuantity := Some 0, AveragePrice := Some 0, Volume := Some 0,
             BuyQuantity := Some 0, SellQuantity := Some 0, Open := Some 0,
             High := Some 0, Low := Some 0, Close := Some 0, Change := Some 0,
             LastTradeTime := Some None, OI := Some 0, OIDayHigh := Some 0,
             OIDayLow := Some 0, Timestamp := Some None\<rparr>
         else if m = Quote \<or> len = 44 then
           noFields\<lparr>Mode := Some Quote, InstrumentToken := Some t,
             Tradable := Some (t mod 256 \<noteq> 9), LastPrice := Some (price 4),
             LastQuantity := Some (number 8), AveragePrice := Some (price 12),
             Volume := Some (number 16), BuyQuantity := Some (number 20),
             SellQuantity := Some (number 24), Open := Some (price 28),
             High := Some (price 32), Low := Some (price 36), Close := Some (price 40)\<rparr>
         else
           noFields\<lparr>Mode := Some Full, InstrumentToken := Some t,
             Tradable := Some (t mod 256 \<noteq> 9), LastPrice := Some (price 4),
             LastQuantity := Some (number 8), AveragePrice := Some (price 12),
             Volume := Some (number 16), BuyQuantity := Some (number 20),
             SellQuantity := Some (number 24), Open := Some (price 28),
             High := Some (price 32), Low := Some (price 36), Close := Some (price 40),
             Change := Some 0, LastTradeTime := Some (Some (time 44)),
             OI := Some (number 48), OIDayHigh := Some (number 52),
             OIDayLow := Some (number 56), Timestamp := Some (Some (time 60)),
             Bids := Some (depths 64), Offers := Some (depths 124),
             UpperCircuit := Some (price 184), LowerCircuit := Some (price 188),
             YearHigh := Some (price 192), YearLow := Some (price 196)\<rparr>)"
proof -
  have t: "t = be32 view offset"
    using token by (simp add: getUint32_SomeD)
  note defs = m_def d_def price_def number_def time_def depths_def
  note unfold = parseTickData_def noFields_def Let_def tradable_def and_255
    unixToDateTime_def baseDate_def
  consider (ltp8) "len = 8" | (index28) "len = 28" | (index32) "len = 32"
    | (quote) "len \<in> {44, 184, 200}" "m = Quote"
    | (ltp) "len \<in> {44, 184, 200}" "m = Ltp"
    | (full44) "len = 44" "m = Full"
    | (full200) "len = 200" "m = Full"
    using supported by (cases m) auto
  then show ?thesis
  proof cases
    case ltp8
    with within t show ?thesis
      by (simp add: defs unfold readLTPBroadcast_def inside)
  next
    case index28
    with within t show ?thesis
      by (simp add: defs unfold readQuoteIndex_def inside)
  next
    case index32
    with within t show ?thesis
      by (cases m) (simp_all add: defs unfold readFullIndex_def inside)
  next
    case quote
    with within t show ?thesis
      by (auto simp add: defs unfold readModeBasedData_def createQuoteFromPacket_def inside)
  next
    case ltp
    with within t show ?thesis
      by (auto simp add: defs unfold readModeBasedData_def createLTPFromPacket_def inside)
  next
    case full44
    with within t show ?thesis
      by (simp add: defs unfold readModeBasedData_def readQuote_def inside)
  next
    case full200
    with within t show ?thesis
      by (simp add: defs unfold readModeBasedData_def readFullFeed_def inside readDepths_inside
          add.assoc)
  qed
qed

theorem parseTickData_supported_lengths_witness:
  "(44 \<in> {8, 28, 32, 44, 200::nat}
      \<or> (44::nat) = 184 \<and> getTokenMode (setMode Quote [5633] (newMTicker None)) 5633 \<noteq> Full)
   \<and> 0 + 44 \<le> length [0, 0, 0x16, 0x01, 0, 3, 0xD0, 0xC2, 0, 0, 0, 7, 0, 0, 1, 44,
                       0, 0, 3, 232, 0, 0, 0, 50, 0, 0, 0, 60, 0, 0, 0, 200,
                       0, 0, 1, 144, 0, 0, 0, 100, 0, 0, 0, 150 :: 8 word]
   \<and> getUint32 [0, 0, 0x16, 0x01, 0, 3, 0xD0, 0xC2, 0, 0, 0, 7, 0, 0, 1, 44,
                 0, 0, 3, 232, 0, 0, 0, 50, 0, 0, 0, 60, 0, 0, 0, 200,
                 0, 0, 1, 144, 0, 0, 0, 100, 0, 0, 0, 150] 0 = Some 5633
   \<and> parseTickData (setMode Quote [5633] (newMTicker None))
         [0, 0, 0x16, 0x01, 0, 3, 0xD0, 0xC2, 0, 0, 0, 7, 0, 0, 1, 44,
          0, 0, 3, 232, 0, 0, 0, 50, 0, 0, 0, 60, 0, 0, 0, 200,
          0, 0, 1, 144, 0, 0, 0, 100, 0, 0, 0, 150] 0 44 =
       (Some (noFields\<lparr>Mode := Some Quote, InstrumentToken := Some 5633,
          Tradable := Some True, LastPrice := Some (5001 / 2), LastQuantity := Some 7,
          AveragePrice := Some 3, Volume := Some 1000, BuyQuantity := Some 50,
          SellQuantity := Some 60, Open := Some 2, High := Some 4, Low := Some 1,
          Close := Some (3 / 2)\<rparr>), [])"
proof -
  let ?view = "[0, 0, 0x16, 0x01, 0, 3, 0xD0, 0xC2, 0, 0, 0, 7, 0, 0, 1, 44,
                0, 0, 3, 232, 0, 0, 0, 50, 0, 0, 0, 60, 0, 0, 0, 200,
                0, 0, 1, 144, 0, 0, 0, 100, 0, 0, 0, 150] :: 8 word list"
  let ?client = "setMode Quote [5633] (newMTicker None)"
  have requested: "getTokenMode ?client 5633 = Quote"
    by (simp add: getTokenMode_def setMode_def newMTicker_def isOpen_def)
  have supported: "44 \<in> {8, 28, 32, 44, 200::nat}
      \<or> (44::nat) = 184 \<and> getTokenMode ?client 5633 \<noteq> Full"
    by simp
  have within: "0 + 44 \<le> length ?view"
    by simp
  have token: "getUint32 ?view 0 = Some 5633"
    by (simp add: getUint32_def be32_def be16_def)
  have divisor: "getDecimalDivisor 5633 = 100"
    by (simp add: getDecimalDivisor_def and_255)
  have wire: "be32 ?view 4 = 250050" "be32 ?view 8 = 7" "be32 ?view 12 = 300"
    "be32 ?view 16 = 1000" "be32 ?view 20 = 50" "be32 ?view 24 = 60" "be32 ?view 28 = 200"
    "be32 ?view 32 = 400" "be32 ?view 36 = 100" "be32 ?view 40 = 150"
    by (simp_all add: be32_def be16_def)
  note fact =
    parseTickData_supported_lengths [of 44 ?client 5633 0 ?view, OF supported within token]
  show ?thesis
    apply (intro conjI supported within token)
    apply (rule exE [OF fact])
    apply (elim conjE)
    apply (simp add: requested divisor wire)
    done
qed

theorem mode_of_8_byte_record_counterexample:
  "getTokenMode (newMTicker None) 408065 = Full
   \<and> map_option Mode
        (fst (parseTickData (newMTicker None) [0x00, 0x06, 0x3A, 0x01, 0x00, 0x03, 0xD0, 0xC2] 0 8))
       = Some (Some Ltp)"
  by (simp add: getTokenMode_def newMTicker_def parseTickData_def readLTPBroadcast_def
      getPrice_def getUint32_def noFields_def)

subsection \<open>Mode ltp on the large shapes\<close>

text \<open>
  Claim C3. When the requested mode of the identifier is ltp, a 44-, 184- or 200-byte
  record decodes to a tick that carries the identifier, the tradability flag and the
  last price (the uint32 at record offset 4 divided by the divisor); every other numeric
  field is 0, both timestamps are null, and depth and circuit limits are not emitted.
  Eight bytes of the record inside the buffer are enough.
\<close>

theorem ltp_mode_trims_record:
  assumes "len \<in> {44, 184, 200}"
    and "getUint32 view offset = Some t"
    and "getTokenMode this t = Ltp"
    and "offset + 8 \<le> length view"
  shows "parseTickData this view offset len =
    (Some \<lparr>Mode = Some Ltp, InstrumentToken = Some t, Tradable = Some (t mod 256 \<noteq> 9),
       LastPrice = Some (of_nat (be32 view (offset + 4)) / getDecimalDivisor t),
       LastQuantity = Some 0, AveragePrice = Some 0, Volume = Some 0,
       BuyQuantity = Some 0, SellQuantity = Some 0, Open = Some 0, High = Some 0,
       Low = Some 0, Close = Some 0, Change = Some 0, Bids = None, Offers = None,
       LastTradeTime = Some None, OI = Some 0, OIDayHigh = Some 0, OIDayLow = Some 0,
       Timestamp = Some None, UpperCircuit = None, LowerCircuit = None,
       YearHigh = None, YearLow = None\<rparr>, [])"
proof -
  have "readModeBasedData this view offset len = createLTPFromPacket view offset t"
    using assms(2,3) by (simp add: readModeBasedData_def)
  moreover have "getPrice view (offset + 4) (getDecimalDivisor t)
      = Some (of_nat (be32 view (offset + 4)) / getDecimalDivisor t)"
    using assms(4) by (simp add: getPrice_inside)
  ultimately show ?thesis
    using assms(1)
    by (auto simp add: parseTickData_def createLTPFromPacket_def noFields_def tradable_def
        and_255)
qed

theorem ltp_mode_trims_record_witness:
  "184 \<in> {44, 184, 200::nat}
   \<and> getUint32 ([0x00, 0x00, 0x16, 0x01, 0x00, 0x00, 0x27, 0x10] @ replicate 176 0xFF) 0 = Some 5633
   \<and> getTokenMode (setMode Ltp [5633] (newMTicker None)) 5633 = Ltp
   \<and> 0 + 8 \<le> length ([0x00, 0x00, 0x16, 0x01, 0x00, 0x00, 0x27, 0x10] @ replicate 176 (0xFF :: 8 word))
   \<and> parseTickData (setMode Ltp [5633] (newMTicker None))
         ([0x00, 0x00, 0x16, 0x01, 0x00, 0x00, 0x27, 0x10] @ replicate 176 0xFF) 0 184 =
       (Some \<lparr>Mode = Some Ltp, InstrumentToken = Some 5633, Tradable = Some True,
          LastPrice = Some 100,
          LastQuantity = Some 0, AveragePrice = Some 0, Volume = Some 0,
          BuyQuantity = Some 0, SellQuantity = Some 0, Open = Some 0, High = Some 0,
          Low = Some 0, Close = Some 0, Change = Some 0, Bids = None, Offers = None,
          LastTradeTime = Some None, OI = Some 0, OIDayHigh = Some 0, OIDayLow = Some 0,
          Timestamp = Some None, UpperCircuit = None, LowerCircuit = None,
          YearHigh = None, YearLow = None\<rparr>, [])"
proof -
  let ?view = "[0x00, 0x00, 0x16, 0x01, 0x00, 0x00, 0x27, 0x10] @ replicate 176 (0xFF :: 8 word)"
  let ?client = "setMode Ltp [5633] (newMTicker None)"
  have len: "184 \<in> {44, 184, 200::nat}"
    by simp
  have token: "getUint32 ?view 0 = Some 5633"
    by (simp add: getUint32_def be32_def be16_def)
  have requested: "getTokenMode ?client 5633 = Ltp"
    by (simp add: getTokenMode_def setMode_def newMTicker_def isOpen_def)
  have within: "0 + 8 \<le> length ?view"
    by simp
  have price: "be32 ?view (0 + 4) = 10000"
    by (simp add: be32_def be16_def)
  have divisor: "getDecimalDivisor 5633 = 100"
    by (simp add: getDecimalDivisor_def and_255)
  from ltp_mode_trims_record [OF len token requested within] price divisor len token requested
  show ?thesis by simp
qed

subsection \<open>The 32-byte index shape\<close>

text \<open>
  Claim C4. A 32-byte index record is decoded by the requested mode of the identifier in
  its first four bytes: quote gives the quote fields with \<open>Change = LastPrice - Close\<close>,
  ltp gives the identifier and the last price only, and anything else gives the six
  fields and the timestamp under mode full, the timestamp being the uint32 at offset 28
  in seconds after 1980-01-01T00:00:00Z (315532800000 ms after the Unix epoch).
\<close>

theorem readFullIndex_by_mode:
  fixes this :: MTicker and view :: DataView and offset t :: nat
  defines "price \<equiv> \<lambda>k. of_nat (be32 view (offset + k)) / getDecimalDivisor t"
  assumes "offset + 32 \<le> length view"
    and "getUint32 view offset = Some t"
  shows "parseTickData this view offset 32 =
    (Some (case getTokenMode this t of
        Quote \<Rightarrow> noFields\<lparr>Mode := Some Quote, InstrumentToken := Some t,
                   Tradable := Some (t mod 256 \<noteq> 9), LastPrice := Some (price 4),
                   High := Some (price 8), Low := Some (price 12), Open := Some (price 16),
                   Close := Some (price 20), Change := Some (price 4 - price 20)\<rparr>
      | Ltp \<Rightarrow> noFields\<lparr>Mode := Some Ltp, InstrumentToken := Some t,
                   Tradable := Some (t mod 256 \<noteq> 9), LastPrice := Some (price 4)\<rparr>
      | Full \<Rightarrow> noFields\<lparr>Mode := Some Full, InstrumentToken := Some t,
                   Tradable := Some (t mod 256 \<noteq> 9), LastPrice := Some (price 4),
                   High := Some (price 8), Low := Some (price 12), Open := Some (price 16),
                   Close := Some (price 20), Change := Some (price 4 - price 20),
                   Timestamp := Some (Some (Date (315532800000
                                  + 1000 * int (be32 view (offset + 28)))))\<rparr>), [])
     \<and> baseDate = 315532800000
     \<and> baseDate = ((1980 - 1970) * 365 + 2) * (24 * 60 * 60 * 1000)"
proof -
  have t: "t = be32 view offset"
    using assms(3) by (simp add: getUint32_SomeD)
  show ?thesis
    using assms(2) t
    by (cases "getTokenMode this (be32 view offset)")
      (simp_all add: price_def parseTickData_def readFullIndex_def inside tradable_def
        and_255 Let_def unixToDateTime_def baseDate_def)
qed

theorem readFullIndex_by_mode_witness:
  "0 + 32 \<le> length [0, 0, 1, 9, 0, 0, 1, 44, 0, 0, 1, 144, 0, 0, 0, 200,
                      0, 0, 1, 0, 0, 0, 0, 100, 0, 0, 0, 0, 0, 0, 0, 60 :: 8 word]
   \<and> getUint32 [0, 0, 1, 9, 0, 0, 1, 44, 0, 0, 1, 144, 0, 0, 0, 200,
                 0, 0, 1, 0, 0, 0, 0, 100, 0, 0, 0, 0, 0, 0, 0, 60] 0 = Some 265
   \<and> parseTickData (newMTicker None)
        [0, 0, 1, 9, 0, 0, 1, 44, 0, 0, 1, 144, 0, 0, 0, 200,
         0, 0, 1, 0, 0, 0, 0, 100, 0, 0, 0, 0, 0, 0, 0, 60] 0 32 =
       (Some (noFields\<lparr>Mode := Some Full, InstrumentToken := Some 265,
          Tradable := Some False, LastPrice := Some 3, High := Some 4, Low := Some 2,
          Open := Some (64 / 25), Close := Some 1, Change := Some 2,
          Timestamp := Some (Some (Date 315532860000))\<rparr>), [])"
proof -
  let ?view = "[0, 0, 1, 9, 0, 0, 1, 44, 0, 0, 1, 144, 0, 0, 0, 200,
                0, 0, 1, 0, 0, 0, 0, 100, 0, 0, 0, 0, 0, 0, 0, 60] :: 8 word list"
  have within: "0 + 32 \<le> length ?view"
    by simp
  have token: "getUint32 ?view 0 = Some 265"
    by (simp add: getUint32_def be32_def be16_def)
  have requested: "getTokenMode (newMTicker None) 265 = Full"
    by (simp add: getTokenMode_def newMTicker_def)
  have divisor: "getDecimalDivisor 265 = 100"
    by (simp add: getDecimalDivisor_def and_255)
  have wire: "be32 ?view (0 + 4) = 300" "be32 ?view (0 + 8) = 400" "be32 ?view (0 + 12) = 200"
    "be32 ?view (0 + 16) = 256" "be32 ?view (0 + 20) = 100" "be32 ?view (0 + 28) = 60"
    by (simp_all add: be32_def be16_def)
  from readFullIndex_by_mode [OF within token, of "newMTicker None"]
  have "parseTickData (newMTicker None) ?view 0 32 =
       (Some (noFields\<lparr>Mode := Some Full, InstrumentToken := Some 265,
          Tradable := Some False, LastPrice := Some 3, High := Some 4, Low := Some 2,
          Open := Some (64 / 25), Close := Some 1, Change := Some 2,
          Timestamp := Some (Some (Date 315532860000))\<rparr>), [])"
    unfolding requested divisor wire by simp
  with within token show ?thesis by simp
qed

subsection \<open>Change in the full feed\<close>

text \<open>
  Claim C10. A 184- or 200-byte record decoded under requested mode full (also when no
  mode was requested) never yields a tick whose \<open>Change\<close> is anything but 0, and a tick
  is yielded once 200 bytes from the record start are inside the buffer; the 32-byte
  index path under the same mode computes \<open>LastPrice - Close\<close> instead.
\<close>

theorem full_feed_change_is_zero:
  assumes "len \<in> {184, 200}"
    and "getUint32 view offset = Some t"
    and "getTokenMode this t = Full"
  shows "(\<forall>tick logged. parseTickData this view offset len = (Some tick, logged)
            \<longrightarrow> Change tick = Some 0)
     \<and> (offset + 200 \<le> length view
          \<longrightarrow> (\<exists>tick. parseTickData this view offset len = (Some tick, [])))
     \<and> (offset + 32 \<le> length view
          \<longrightarrow> (\<exists>tick. parseTickData this view offset 32 = (Some tick, [])
                 \<and> Change tick = Some (of_nat (be32 view (offset + 4)) / getDecimalDivisor t
                                       - of_nat (be32 view (offset + 20)) / getDecimalDivisor t)))"
proof -
  have t: "t = be32 view offset"
    using assms(2) by (simp add: getUint32_SomeD)
  have dispatch: "readModeBasedData this view offset len = readFullFeed view offset len"
    using assms by (auto simp add: readModeBasedData_def)
  have zero: "Change tick = Some 0"
    if "parseTickData this view offset len = (Some tick, logged)" for tick logged
  proof -
    from that assms(1) dispatch have "readFullFeed view offset len = Some tick"
      by (auto simp add: parseTickData_def split: option.splits)
    then show ?thesis by (rule readFullFeed_Change)
  qed
  have emitted: "\<exists>tick. parseTickData this view offset len = (Some tick, [])"
    if "offset + 200 \<le> length view"
    using that assms(1) dispatch
    by (auto simp add: parseTickData_def readFullFeed_def inside readDepths_inside Let_def)
  have index: "\<exists>tick. parseTickData this view offset 32 = (Some tick, [])
      \<and> Change tick = Some (of_nat (be32 view (offset + 4)) / getDecimalDivisor t
                            - of_nat (be32 view (offset + 20)) / getDecimalDivisor t)"
    if "offset + 32 \<le> length view"
    using that assms(3) t
    by (simp add: parseTickData_def readFullIndex_def inside noFields_def Let_def)
  from zero emitted index show ?thesis by blast
qed

theorem full_feed_change_is_zero_witness:
  "200 \<in> {184, 200::nat}
   \<and> getUint32 ([0x00, 0x00, 0x16, 0x01] @ replicate 196 1) 0 = Some 5633
   \<and> getTokenMode (newMTicker None) 5633 = Full
   \<and> (\<exists>tick. parseTickData (newMTicker None) ([0x00, 0x00, 0x16, 0x01] @ replicate 196 1) 0 200
               = (Some tick, [])
            \<and> Change tick = Some 0)"
proof -
  let ?view = "[0x00, 0x00, 0x16, 0x01] @ replicate 196 (1 :: 8 word)"
  have len: "200 \<in> {184, 200::nat}"
    by simp
  have token: "getUint32 ?view 0 = Some 5633"
    by (simp add: getUint32_def be32_def be16_def)
  have requested: "getTokenMode (newMTicker None) 5633 = Full"
    by (simp add: getTokenMode_def newMTicker_def)
  have within: "0 + 200 \<le> length ?view"
    by simp
  from full_feed_change_is_zero [OF len token requested] within
  have "\<exists>tick. parseTickData (newMTicker None) ?view 0 200 = (Some tick, [])
      \<and> Change tick = Some 0"
    by blast
  with len token requested show ?thesis by blast
qed

subsection \<open>Malformed records in a frame\<close>




subsection \<open>Subscriptions and modes\<close>

text \<open>
  Claim C5, as the code has it. The claim reads: \<open>subscribe\<close>, \<open>setMode\<close> and
  \<open>subscribeWithMode\<close> with a non-empty list always change the local state, and with the
  socket not open the send is skipped with a logged warning. In the code
  \<open>subscribeWithMode\<close> does everything inside its open-socket guard, and only
  \<open>subscribe\<close> logs. What holds: \<open>subscribe\<close> adds the identifiers and \<open>setMode\<close>
  updates the mode table whatever the socket state; \<open>subscribe\<close> sends or warns,
  \<open>setMode\<close> sends or stays silent; \<open>subscribeWithMode\<close> sends and adds with an open
  socket and leaves the client untouched otherwise.
\<close>

theorem subscription_calls_local_state:
  assumes "ids \<noteq> []"
  shows "subscribedTokens (subscribe ids this) = subscribedTokens this \<union> set ids
     \<and> trace (subscribe ids this) =
         trace this @ [if isOpen this then WsSend (SubscriptionMsg Subscribe ids)
                       else Warn (CannotSend Subscribe)]
     \<and> (\<forall>t. tokenModes (setMode m ids this) t
              = (if t \<in> set ids then Some m else tokenModes this t))
     \<and> trace (setMode m ids this) =
         trace this @ (if isOpen this then [WsSend (ModeMsg m ids)] else [])
     \<and> (isOpen this \<longrightarrow>
           subscribedTokens (subscribeWithMode m ids this) = subscribedTokens this \<union> set ids
           \<and> trace (subscribeWithMode m ids this) = trace this @ [WsSend (SubscribeModeMsg m ids)])
     \<and> (\<not> isOpen this \<longrightarrow> subscribeWithMode m ids this = this)"
  using assms
  by (simp add: subscribe_def setMode_def subscribeWithMode_def sendSubscriptionMessage_def
      emit_def isOpen_def fold_insert_eq fold_upd_eq Un_commute)

theorem subscription_calls_local_state_witness:
  "[5633, 2885] \<noteq> ([] :: nat list)
   \<and> subscribedTokens (subscribe [5633, 2885] (newMTicker None)) = {5633, 2885}
   \<and> trace (subscribe [5633, 2885] (newMTicker None)) = [Warn (CannotSend Subscribe)]
   \<and> tokenModes (setMode Quote [5633, 2885] (newMTicker None)) 2885 = Some Quote
   \<and> trace (setMode Quote [5633, 2885] (newMTicker None)) = []
   \<and> subscribeWithMode Quote [5633, 2885] (newMTicker None) = newMTicker None
   \<and> subscribedTokens (subscribeWithMode Quote [5633, 2885]
         (socketReadyState OPEN (connect True (newMTicker None)))) = {5633, 2885}"
proof -
  have ids: "[5633, 2885] \<noteq> ([] :: nat list)"
    by simp
  have closed: "\<not> isOpen (newMTicker None)"
    by (simp add: isOpen_def newMTicker_def)
  have opened: "isOpen (socketReadyState OPEN (connect True (newMTicker None)))"
    and none: "subscribedTokens (socketReadyState OPEN (connect True (newMTicker None))) = {}"
    by (simp_all add: isOpen_def socketReadyState_def connect_def createWebSocketConnection_def
        emit_def newMTicker_def)
  have fresh: "subscribedTokens (newMTicker None) = {}" "trace (newMTicker None) = []"
    by (simp_all add: newMTicker_def)
  from subscription_calls_local_state [OF ids, of "newMTicker None" Quote]
    subscription_calls_local_state [OF ids,
      of "socketReadyState OPEN (connect True (newMTicker None))" Quote]
    ids closed opened none fresh
  show ?thesis
    by (simp add: insert_commute)
qed

theorem subscribeWithMode_closed_socket_counterexample:
  "\<not> isOpen (newMTicker None)
   \<and> 5633 \<notin> subscribedTokens (subscribeWithMode Full [5633] (newMTicker None))
   \<and> trace (subscribeWithMode Full [5633] (newMTicker None)) = []
   \<and> trace (setMode Full [5633] (newMTicker None)) = []"
  by (simp add: subscribeWithMode_def setMode_def isOpen_def newMTicker_def)

text \<open>
  Claim C6. \<open>unsubscribe ids\<close> removes exactly \<open>ids\<close> from the subscribed set and leaves
  the mode table as it was; \<open>subscribe [5633]\<close> followed by \<open>unsubscribe [5633]\<close> leaves
  the subscribed set without 5633 (empty when nothing else was subscribed) and every
  mode entry in place.
\<close>

theorem unsubscribe_frame:
  "subscribedTokens (unsubscribe ids this) = subscribedTokens this - set ids
   \<and> tokenModes (unsubscribe ids this) = tokenModes this
   \<and> subscribedTokens (unsubscribe [5633] (subscribe [5633] this)) = subscribedTokens this - {5633}
   \<and> tokenModes (unsubscribe [5633] (subscribe [5633] this)) = tokenModes this
   \<and> (subscribedTokens this \<subseteq> {5633} \<longrightarrow>
         subscribedTokens (unsubscribe [5633] (subscribe [5633] this)) = {})"
  by (auto simp add: unsubscribe_def subscribe_def sendSubscriptionMessage_def emit_def
      fold_delete_eq)

theorem unsubscribe_frame_witness:
  "subscribedTokens (setMode Ltp [5633] (newMTicker None)) \<subseteq> {5633}
   \<and> subscribedTokens (unsubscribe [5633] (subscribe [5633] (setMode Ltp [5633] (newMTicker None))))
       = {}
   \<and> tokenModes (unsubscribe [5633] (subscribe [5633] (setMode Ltp [5633] (newMTicker None)))) 5633
       = Some Ltp"
proof -
  have none: "subscribedTokens (setMode Ltp [5633] (newMTicker None)) \<subseteq> {5633}"
    by (simp add: setMode_def newMTicker_def isOpen_def)
  have requested: "tokenModes (setMode Ltp [5633] (newMTicker None)) 5633 = Some Ltp"
    by (simp add: setMode_def newMTicker_def isOpen_def)
  from unsubscribe_frame [of "[5633]" "setMode Ltp [5633] (newMTicker None)"] none requested
  show ?thesis
    by simp
qed

subsection \<open>Connection lifecycle\<close>

text \<open>
  Claim C9. From any state \<open>disconnect\<close> sets the manual-close flag, closes the socket
  if there is one and forgets it, empties the subscribed set, resets the attempt
  counter to 0 and keeps the mode table; no step of automatic reconnection (scheduling,
  the error, close and open handlers, the timer, the socket creation) changes the
  subscribed set.
\<close>

theorem disconnect_effects:
  "isManualClose (disconnect this)
   \<and> ws (disconnect this) = None
   \<and> trace (disconnect this) = trace this @ (if ws this = None then [] else [WsClose])
   \<and> subscribedTokens (disconnect this) = {}
   \<and> reconnectionAttempts (disconnect this) = 0
   \<and> tokenModes (disconnect this) = tokenModes this
   \<and> subscribedTokens (scheduleReconnection this) = subscribedTokens this
   \<and> subscribedTokens (handleError this) = subscribedTokens this
   \<and> subscribedTokens (handleClose this) = subscribedTokens this
   \<and> subscribedTokens (reconnectTimerFired constructed this) = subscribedTokens this
   \<and> subscribedTokens (createWebSocketConnection constructed this) = subscribedTokens this
   \<and> subscribedTokens (handleOpen this) = subscribedTokens this"
  by (simp add: disconnect_def scheduleReconnection_def handleError_def handleClose_def
      reconnectTimerFired_def createWebSocketConnection_def handleOpen_def emit_def Let_def)

theorem disconnect_effects_witness:
  "subscribedTokens (subscribe [5633] (setMode Ltp [5633] (connect True (newMTicker None))))
     = {5633}
   \<and> subscribedTokens (disconnect
        (subscribe [5633] (setMode Ltp [5633] (connect True (newMTicker None))))) = {}
   \<and> tokenModes (disconnect
        (subscribe [5633] (setMode Ltp [5633] (connect True (newMTicker None))))) 5633 = Some Ltp
   \<and> ws (disconnect
        (subscribe [5633] (setMode Ltp [5633] (connect True (newMTicker None))))) = None
   \<and> subscribedTokens (handleClose
        (subscribe [5633] (setMode Ltp [5633] (connect True (newMTicker None))))) = {5633}"
proof -
  let ?client = "subscribe [5633] (setMode Ltp [5633] (connect True (newMTicker None)))"
  have subscribed: "subscribedTokens ?client = {5633}"
    and requested: "tokenModes ?client 5633 = Some Ltp"
    by (simp_all add: subscribe_def sendSubscriptionMessage_def setMode_def connect_def
        createWebSocketConnection_def emit_def isOpen_def newMTicker_def)
  from disconnect_effects [of ?client] subscribed requested show ?thesis
    by simp
qed




end
